theory Spec2Isabelle
  imports Complex_Main
begin

section \<open>Cell values\<close>

text \<open>
  The value of a spreadsheet cell as the grading code sees it: absent (Python's None), a
  boolean, an integer, a floating-point number, a text, or a date. Python's unbounded
  integers are \<open>int\<close>. Floating-point numbers are modelled by the real numbers they denote:
  rounding, infinities, NaN and the limit of the integer-to-float conversion are outside
  this model. A date is identified by its timestamp.
\<close>

datatype cell_value =
    PyNone
  | PyBool bool
  | PyInt int
  | PyFloat real
  | PyStr string
  | PyDate int

text \<open>\<open>isinstance(v, (int, float))\<close>: Python's \<open>bool\<close> is a subclass of \<open>int\<close>.\<close>

fun is_numeric :: "cell_value \<Rightarrow> bool" where
  "is_numeric (PyBool b) = True"
| "is_numeric (PyInt i) = True"
| "is_numeric (PyFloat x) = True"
| "is_numeric v = False"

text \<open>\<open>isinstance(v, str)\<close>.\<close>

fun is_str :: "cell_value \<Rightarrow> bool" where
  "is_str (PyStr s) = True"
| "is_str v = False"

text \<open>\<open>isinstance(v, bool)\<close>.\<close>

fun is_bool :: "cell_value \<Rightarrow> bool" where
  "is_bool (PyBool b) = True"
| "is_bool v = False"

text \<open>The number a numeric value stands for in arithmetic: \<open>True\<close> is 1, \<open>False\<close> is 0.\<close>

fun num_of :: "cell_value \<Rightarrow> real" where
  "num_of (PyBool b) = (if b then 1 else 0)"
| "num_of (PyInt i) = real_of_int i"
| "num_of (PyFloat x) = x"
| "num_of v = 0"

text \<open>
  Python's \<open>==\<close> on cell values: numbers (booleans included) compare by numeric value
  whatever their types, texts and dates compare by content, None equals only None, and
  values of different kinds are unequal.
\<close>

fun py_eq :: "cell_value \<Rightarrow> cell_value \<Rightarrow> bool" where
  "py_eq PyNone PyNone = True"
| "py_eq (PyStr s) (PyStr t) = (s = t)"
| "py_eq (PyDate d) (PyDate e) = (d = e)"
| "py_eq a b = (is_numeric a \<and> is_numeric b \<and> num_of a = num_of b)"

section \<open>Text normalisation\<close>

text \<open>
  \<open>str.strip()\<close> removes leading and trailing whitespace and \<open>str.lower()\<close> maps capital
  letters to small ones. Characters are bytes here, so both are modelled on ASCII.
\<close>

definition is_space :: "char \<Rightarrow> bool" where
  "is_space c = (c \<in> set [CHR 0x20, CHR 0x09, CHR 0x0A, CHR 0x0B, CHR 0x0C, CHR 0x0D,
                           CHR 0x1C, CHR 0x1D, CHR 0x1E, CHR 0x1F])"

definition strip :: "string \<Rightarrow> string" where
  "strip s = rev (dropWhile is_space (rev (dropWhile is_space s)))"

definition lower_char :: "char \<Rightarrow> char" where
  "lower_char c =
     (case map_of (zip ''ABCDEFGHIJKLMNOPQRSTUVWXYZ'' ''abcdefghijklmnopqrstuvwxyz'') c of
        None \<Rightarrow> c
      | Some d \<Rightarrow> d)"

definition lower :: "string \<Rightarrow> string" where
  "lower s = map lower_char s"

section \<open>The tolerant comparison\<close>

text \<open>\<open>v is None or v == ""\<close>.\<close>

definition is_blank :: "cell_value \<Rightarrow> bool" where
  "is_blank v = (v = PyNone \<or> py_eq v (PyStr []))"

text \<open>\<open>equal_values\<close>, the same text in autograder.py and grader.py.\<close>

definition equal_values :: "cell_value \<Rightarrow> cell_value \<Rightarrow> bool" where
  "equal_values val1 val2 =
     (if is_blank val1 \<and> is_blank val2 then True
      else if is_numeric val1 \<and> is_numeric val2 then \<bar>num_of val1 - num_of val2\<bar> < 0.0001
      else case (val1, val2) of
             (PyStr s, PyStr t) \<Rightarrow> lower (strip s) = lower (strip t)
           | _ \<Rightarrow> py_eq val1 val2)"

section \<open>Sheets and workbooks\<close>

text \<open>
  The spreadsheet reader is an external collaborator. A sheet offers what the grading code
  uses: its column extent, the value of the cell at a row and a column (an unused cell
  reads as None), and the value of the cell at an A1 address, where \<open>None\<close> of the option
  type stands for an access that raised. A workbook is its sheets in order, by name.
\<close>

record sheet =
  max_column :: nat
  cell :: "nat \<Rightarrow> nat \<Rightarrow> cell_value"
  getitem :: "string \<Rightarrow> cell_value option"

type_synonym workbook = "(string \<times> sheet) list"

definition sheetnames :: "workbook \<Rightarrow> string list" where
  "sheetnames wb = map fst wb"

text \<open>\<open>wb[name]\<close> raises KeyError for a name the workbook does not have.\<close>

definition wb_getitem :: "workbook \<Rightarrow> string \<Rightarrow> string + sheet" where
  "wb_getitem wb name =
     (case map_of wb name of
        None \<Rightarrow> Inl ([CHR 0x27] @ ''Worksheet '' @ name @ '' does not exist.'' @ [CHR 0x27])
      | Some sh \<Rightarrow> Inr sh)"

section \<open>Constants\<close>

definition STUDENT_SHEET_NAME :: string where
  "STUDENT_SHEET_NAME = ''blank''"

definition SOLUTION_SHEET_NAME :: string where
  "SOLUTION_SHEET_NAME = ''solution''"

record hidden_test =
  test_cell :: string
  description :: string

definition HIDDEN_TEST_CELLS :: "hidden_test list" where
  "HIDDEN_TEST_CELLS =
     [\<lparr>test_cell = ''AD21'', description = ''Financial calculation test''\<rparr>,
      \<lparr>test_cell = ''M62'', description = ''Data processing test''\<rparr>,
      \<lparr>test_cell = ''AE187'', description = ''Formula application test''\<rparr>]"

section \<open>Helpers of the grading function\<close>

text \<open>\<open>get_cell_value\<close>: any exception of the access is turned into None.\<close>

definition get_cell_value :: "sheet \<Rightarrow> string \<Rightarrow> cell_value" where
  "get_cell_value sh cell_addr =
     (case getitem sh cell_addr of None \<Rightarrow> PyNone | Some v \<Rightarrow> v)"

text \<open>
  The loop over the columns of row 1. The state is the pair of counters
  \<open>(matches, total_cells)\<close>.
\<close>

fun indicator_loop :: "sheet \<Rightarrow> sheet \<Rightarrow> nat list \<Rightarrow> nat \<times> nat \<Rightarrow> nat \<times> nat" where
  "indicator_loop student_sheet solution_sheet [] (m, t) = (m, t)"
| "indicator_loop student_sheet solution_sheet (col_idx # cols) (m, t) =
     (let student_cell = cell student_sheet 1 col_idx;
          solution_cell = cell solution_sheet 1 col_idx
      in if student_cell \<noteq> PyNone \<and> solution_cell \<noteq> PyNone
         then indicator_loop student_sheet solution_sheet cols
                (if py_eq student_cell solution_cell then m + 1 else m, t + 1)
         else indicator_loop student_sheet solution_sheet cols (m, t))"

text \<open>\<open>range(5, max_col + 1)\<close> with \<open>max_col\<close> the larger of the two column extents.\<close>

definition indicator_columns :: "sheet \<Rightarrow> sheet \<Rightarrow> nat list" where
  "indicator_columns student_sheet solution_sheet =
     [5 ..< max (max_column solution_sheet) (max_column student_sheet) + 1]"

text \<open>The loop over the hidden tests. The state is the counter \<open>hidden_tests_passed\<close>.\<close>

fun hidden_loop :: "sheet \<Rightarrow> sheet \<Rightarrow> hidden_test list \<Rightarrow> nat \<Rightarrow> nat" where
  "hidden_loop student_sheet solution_sheet [] p = p"
| "hidden_loop student_sheet solution_sheet (test # tests) p =
     (let cell_addr = test_cell test;
          student_value = get_cell_value student_sheet cell_addr;
          solution_value = get_cell_value solution_sheet cell_addr
      in hidden_loop student_sheet solution_sheet tests
           (if equal_values student_value solution_value then p + 1 else p))"

text \<open>\<open>matches / total_cells if total_cells > 0 else 0.0\<close>.\<close>

definition yn_score_of :: "nat \<Rightarrow> nat \<Rightarrow> real" where
  "yn_score_of m t = (if t > 0 then real m / real t else 0)"

text \<open>Python's \<open>/\<close> on integers raises ZeroDivisionError for a zero divisor.\<close>

definition py_truediv :: "nat \<Rightarrow> nat \<Rightarrow> string + real" where
  "py_truediv a b = (if b = 0 then Inl ''division by zero'' else Inr (real a / real b))"

section \<open>Formatting\<close>

definition digit_char :: "nat \<Rightarrow> char" where
  "digit_char d = ''0123456789'' ! d"

fun str_nat :: "nat \<Rightarrow> string" where
  "str_nat n = (if n < 10 then [digit_char n] else str_nat (n div 10) @ [digit_char (n mod 10)])"

declare str_nat.simps [simp del]

definition round_half_even :: "real \<Rightarrow> int" where
  "round_half_even x =
     (let f = \<lfloor>x\<rfloor>; d = x - of_int f
      in if d < 1 / 2 then f else if 1 / 2 < d then f + 1 else if even f then f else f + 1)"

text \<open>The format \<open>.2f\<close>: two decimal places, ties to even.\<close>

definition format_2f :: "real \<Rightarrow> string" where
  "format_2f x =
     (let n = nat (round_half_even (\<bar>x\<bar> * 100))
      in (if x < 0 then ''-'' else []) @ str_nat (n div 100) @ ''.''
         @ [digit_char (n mod 100 div 10), digit_char (n mod 10)])"

definition success_feedback :: "real \<Rightarrow> nat \<Rightarrow> nat \<Rightarrow> string" where
  "success_feedback percentage m t =
     ''Your score: '' @ format_2f percentage @ ''%'' @ [CHR 0x0A]
     @ ''You correctly matched '' @ str_nat m @ '' out of '' @ str_nat t @ '' cells.''"

section \<open>The grading functions\<close>

record result =
  score :: real
  feedback :: string

record diagnostics =
  matches :: nat
  total_cells :: nat
  hidden_passed :: nat
  hidden_total :: nat

text \<open>
  The dictionary of grader.py has the two keys of the platform's dictionary and, on the
  path that grades, four more.
\<close>

record local_result = result +
  extra :: "diagnostics option"

definition student_sheet_missing :: string where
  "student_sheet_missing =
     ''Error: Worksheet '' @ [CHR 0x27] @ STUDENT_SHEET_NAME @ [CHR 0x27]
     @ '' not found in your submission.''"

text \<open>
  The body of the \<open>try\<close> of autograder.py. A workbook source is given by what loading it
  does: \<open>Inl e\<close> when \<open>load_workbook\<close> raises an exception whose text is \<open>e\<close>, \<open>Inr wb\<close>
  when it returns \<open>wb\<close>. The student's workbook is loaded first. The list of hidden tests
  is a parameter, instantiated below with the constant of the module.
\<close>

definition autograder_try ::
    "hidden_test list \<Rightarrow> string + workbook \<Rightarrow> string + workbook \<Rightarrow> string + result" where
  "autograder_try tests student_load solution_load =
     (case student_load of Inl e \<Rightarrow> Inl e | Inr student_wb \<Rightarrow>
     (case solution_load of Inl e \<Rightarrow> Inl e | Inr solution_wb \<Rightarrow>
      if STUDENT_SHEET_NAME \<notin> set (sheetnames student_wb)
      then Inr \<lparr>score = 0, feedback = student_sheet_missing\<rparr>
      else if SOLUTION_SHEET_NAME \<notin> set (sheetnames solution_wb)
      then Inr \<lparr>score = 0, feedback = ''Error: Internal error - Solution worksheet not found.''\<rparr>
      else
     (case wb_getitem student_wb STUDENT_SHEET_NAME of Inl e \<Rightarrow> Inl e | Inr student_sheet \<Rightarrow>
     (case wb_getitem solution_wb SOLUTION_SHEET_NAME of Inl e \<Rightarrow> Inl e | Inr solution_sheet \<Rightarrow>
      let (matches, total_cells) =
            indicator_loop student_sheet solution_sheet
              (indicator_columns student_sheet solution_sheet) (0, 0);
          hidden_tests_passed = hidden_loop student_sheet solution_sheet tests 0;
          yn_score = yn_score_of matches total_cells
      in (case py_truediv hidden_tests_passed (length tests) of Inl e \<Rightarrow> Inl e | Inr hidden_score \<Rightarrow>
          let total_score = yn_score * 0.8 + hidden_score * 0.2;
              percentage = total_score * 100
          in Inr \<lparr>score = total_score,
                  feedback = success_feedback percentage matches total_cells\<rparr>)))))"

text \<open>The \<open>except Exception as e\<close> around the body.\<close>

definition autograder_with ::
    "hidden_test list \<Rightarrow> string + workbook \<Rightarrow> string + workbook \<Rightarrow> result" where
  "autograder_with tests student_load solution_load =
     (case autograder_try tests student_load solution_load of
        Inl e \<Rightarrow> \<lparr>score = 0, feedback = ''Error grading your submission: '' @ e\<rparr>
      | Inr r \<Rightarrow> r)"

text \<open>\<open>grade_excel_worksheet\<close> of autograder.py.\<close>

definition autograder_grade_excel_worksheet ::
    "string + workbook \<Rightarrow> string + workbook \<Rightarrow> result" where
  "autograder_grade_excel_worksheet = autograder_with HIDDEN_TEST_CELLS"

text \<open>The body of the \<open>try\<close> of grader.py.\<close>

definition grader_try ::
    "hidden_test list \<Rightarrow> string + workbook \<Rightarrow> string + workbook \<Rightarrow> string + local_result" where
  "grader_try tests student_load solution_load =
     (case student_load of Inl e \<Rightarrow> Inl e | Inr student_wb \<Rightarrow>
     (case solution_load of Inl e \<Rightarrow> Inl e | Inr solution_wb \<Rightarrow>
      if STUDENT_SHEET_NAME \<notin> set (sheetnames student_wb)
      then Inr \<lparr>score = 0, feedback = student_sheet_missing, extra = None\<rparr>
      else if SOLUTION_SHEET_NAME \<notin> set (sheetnames solution_wb)
      then Inr \<lparr>score = 0, feedback = ''Error: Solution worksheet not found.'', extra = None\<rparr>
      else
     (case wb_getitem student_wb STUDENT_SHEET_NAME of Inl e \<Rightarrow> Inl e | Inr student_sheet \<Rightarrow>
     (case wb_getitem solution_wb SOLUTION_SHEET_NAME of Inl e \<Rightarrow> Inl e | Inr solution_sheet \<Rightarrow>
      let (matches, total_cells) =
            indicator_loop student_sheet solution_sheet
              (indicator_columns student_sheet solution_sheet) (0, 0);
          hidden_tests_passed = hidden_loop student_sheet solution_sheet tests 0;
          yn_score = yn_score_of matches total_cells
      in (case py_truediv hidden_tests_passed (length tests) of Inl e \<Rightarrow> Inl e | Inr hidden_score \<Rightarrow>
          let total_score = yn_score * 0.8 + hidden_score * 0.2;
              percentage = total_score * 100
          in Inr \<lparr>score = total_score,
                  feedback = success_feedback percentage matches total_cells,
                  extra = Some \<lparr>matches = matches, total_cells = total_cells,
                                hidden_passed = hidden_tests_passed,
                                hidden_total = length tests\<rparr>\<rparr>)))))"

definition grader_with ::
    "hidden_test list \<Rightarrow> string + workbook \<Rightarrow> string + workbook \<Rightarrow> local_result" where
  "grader_with tests student_load solution_load =
     (case grader_try tests student_load solution_load of
        Inl e \<Rightarrow> \<lparr>score = 0, feedback = ''Error grading your submission: '' @ e, extra = None\<rparr>
      | Inr r \<Rightarrow> r)"

text \<open>\<open>grade_excel_worksheet\<close> of grader.py.\<close>

definition grader_grade_excel_worksheet ::
    "string + workbook \<Rightarrow> string + workbook \<Rightarrow> local_result" where
  "grader_grade_excel_worksheet = grader_with HIDDEN_TEST_CELLS"

section \<open>The two components of the score\<close>

text \<open>
  The local variables \<open>yn_score\<close> and \<open>hidden_score\<close> of the grading function, as
  functions of the two sheets.
\<close>

definition indicator_row :: "sheet \<Rightarrow> sheet \<Rightarrow> nat \<times> nat" where
  "indicator_row student_sheet solution_sheet =
     indicator_loop student_sheet solution_sheet
       (indicator_columns student_sheet solution_sheet) (0, 0)"

definition yn_score :: "sheet \<Rightarrow> sheet \<Rightarrow> real" where
  "yn_score student_sheet solution_sheet =
     yn_score_of (fst (indicator_row student_sheet solution_sheet))
                 (snd (indicator_row student_sheet solution_sheet))"

definition count_hidden_passed :: "hidden_test list \<Rightarrow> sheet \<Rightarrow> sheet \<Rightarrow> nat" where
  "count_hidden_passed tests student_sheet solution_sheet =
     hidden_loop student_sheet solution_sheet tests 0"

definition hidden_score :: "sheet \<Rightarrow> sheet \<Rightarrow> real" where
  "hidden_score student_sheet solution_sheet =
     real (count_hidden_passed HIDDEN_TEST_CELLS student_sheet solution_sheet)
     / real (length HIDDEN_TEST_CELLS)"

text \<open>Both cells of a column of row 1 hold a value.\<close>

definition both_present :: "sheet \<Rightarrow> sheet \<Rightarrow> nat \<Rightarrow> bool" where
  "both_present student_sheet solution_sheet c =
     (cell student_sheet 1 c \<noteq> PyNone \<and> cell solution_sheet 1 c \<noteq> PyNone)"



section \<open>Example sheets\<close>

text \<open>
  A sheet given by the values of its row 1 (by column) and of some addressed cells; every
  other cell is empty and no access raises.
\<close>

definition mk_sheet :: "nat \<Rightarrow> (nat \<times> cell_value) list \<Rightarrow> (string \<times> cell_value) list \<Rightarrow> sheet" where
  "mk_sheet mc row1 addressed =
     \<lparr>max_column = mc,
      cell = (\<lambda>r c. if r = 1 then (case map_of row1 c of None \<Rightarrow> PyNone | Some v \<Rightarrow> v)
                    else PyNone),
      getitem = (\<lambda>a. Some (case map_of addressed a of None \<Rightarrow> PyNone | Some v \<Rightarrow> v))\<rparr>"

text \<open>Row 1 has Y in columns E, F and G of both sheets; no hidden cell agrees.\<close>

definition student_a :: sheet where
  "student_a =
     mk_sheet 7 [(5, PyStr ''Y''), (6, PyStr ''Y''), (7, PyStr ''Y'')]
       [(''AD21'', PyInt 1), (''M62'', PyStr ''a''), (''AE187'', PyInt 2)]"

definition solution_a :: sheet where
  "solution_a =
     mk_sheet 7 [(5, PyStr ''Y''), (6, PyStr ''Y''), (7, PyStr ''Y'')]
       [(''AD21'', PyInt 5), (''M62'', PyStr ''b''), (''AE187'', PyInt 7)]"

text \<open>Row 1 agrees in two of three columns; two of the three hidden cells agree.\<close>

definition student_c :: sheet where
  "student_c =
     mk_sheet 7 [(5, PyStr ''Y''), (6, PyStr ''N''), (7, PyStr ''Y'')]
       [(''AD21'', PyFloat 2.5), (''M62'', PyStr '' Yes '')]"

definition solution_c :: sheet where
  "solution_c =
     mk_sheet 8 [(5, PyStr ''Y''), (6, PyStr ''Y''), (7, PyStr ''Y'')]
       [(''AD21'', PyFloat 2.50001), (''M62'', PyStr ''yes''), (''AE187'', PyInt 7)]"



section \<open>Facts about the loops and the paths of the grading functions\<close>

lemma indicator_loop_count:
  "indicator_loop st so cols (m, t) =
     (m + length (filter (\<lambda>c. both_present st so c \<and> py_eq (cell st 1 c) (cell so 1 c)) cols),
      t + length (filter (both_present st so) cols))"
  by (induction cols arbitrary: m t) (auto simp: Let_def both_present_def)

lemma hidden_loop_count:
  "hidden_loop st so tests p =
     p + length (filter (\<lambda>t. equal_values (get_cell_value st (test_cell t))
                                          (get_cell_value so (test_cell t))) tests)"
  by (induction tests arbitrary: p) (auto simp: Let_def)

lemma hidden_loop_le: "hidden_loop st so tests 0 \<le> length tests"
  by (simp add: hidden_loop_count)

lemma filter_conj_le: "length (filter (\<lambda>x. P x \<and> Q x) xs) \<le> length (filter P xs)"
  by (induction xs) auto


lemma indicator_row_le: "fst (indicator_row st so) \<le> snd (indicator_row st so)"
  by (simp add: indicator_row_def indicator_loop_count filter_conj_le)

lemma yn_score_of_range: "m \<le> t \<Longrightarrow> 0 \<le> yn_score_of m t \<and> yn_score_of m t \<le> 1"
  by (simp add: yn_score_of_def)

lemma wb_getitem_Inr: "name \<in> set (sheetnames wb) \<Longrightarrow> \<exists>sh. wb_getitem wb name = Inr sh"
  unfolding wb_getitem_def sheetnames_def
  by (cases "map_of wb name") (auto simp: map_of_eq_None_iff)

lemma wb_getitem_member: "wb_getitem wb name = Inr sh \<Longrightarrow> name \<in> set (sheetnames wb)"
  unfolding wb_getitem_def sheetnames_def
  by (auto split: option.splits dest: map_of_SomeD intro: rev_image_eqI)


text \<open>Both sheets are found and there is a hidden test: the path that grades.\<close>

lemma autograder_try_graded:
  assumes "wb_getitem swb STUDENT_SHEET_NAME = Inr st"
    and "wb_getitem twb SOLUTION_SHEET_NAME = Inr so"
    and "tests \<noteq> []"
  shows "autograder_try tests (Inr swb) (Inr twb) =
    Inr \<lparr>score = yn_score st so * 0.8
                  + (real (count_hidden_passed tests st so) / real (length tests)) * 0.2,
         feedback = success_feedback
            ((yn_score st so * 0.8
              + (real (count_hidden_passed tests st so) / real (length tests)) * 0.2) * 100)
            (fst (indicator_row st so)) (snd (indicator_row st so))\<rparr>"
  using assms wb_getitem_member [OF assms(1)] wb_getitem_member [OF assms(2)]
  by (simp add: autograder_try_def yn_score_def count_hidden_passed_def indicator_row_def
      py_truediv_def Let_def split: prod.splits)


text \<open>Both sheets are found and the list of hidden tests is empty: the division raises.\<close>

lemma try_empty_tests:
  assumes "wb_getitem swb STUDENT_SHEET_NAME = Inr st"
    and "wb_getitem twb SOLUTION_SHEET_NAME = Inr so"
  shows "autograder_try [] (Inr swb) (Inr twb) = Inl ''division by zero''"
    and "grader_try [] (Inr swb) (Inr twb) = Inl ''division by zero''"
  using assms wb_getitem_member [OF assms(1)] wb_getitem_member [OF assms(2)]
  by (simp_all add: autograder_try_def grader_try_def py_truediv_def Let_def split: prod.splits)

lemma graded_score_range:
  assumes "tests \<noteq> []"
  shows "0 \<le> yn_score st so * 0.8
              + (real (count_hidden_passed tests st so) / real (length tests)) * 0.2"
    and "yn_score st so * 0.8
           + (real (count_hidden_passed tests st so) / real (length tests)) * 0.2 \<le> 1"
proof -
  let ?y = "yn_score st so"
  let ?h = "real (count_hidden_passed tests st so) / real (length tests)"
  have y: "0 \<le> ?y" "?y \<le> 1"
    using yn_score_of_range [OF indicator_row_le [of st so]] by (simp_all add: yn_score_def)
  have "count_hidden_passed tests st so \<le> length tests"
    by (simp add: count_hidden_passed_def hidden_loop_le)
  with assms have h: "0 \<le> ?h" "?h \<le> 1"
    by simp_all
  from y h show "0 \<le> ?y * 0.8 + ?h * 0.2" by simp
  from y h show "?y * 0.8 + ?h * 0.2 \<le> 1" by simp
qed

lemma autograder_score_cases:
  "score (autograder_with tests sld tld) = 0
   \<or> (\<exists>st so. tests \<noteq> [] \<and> score (autograder_with tests sld tld) =
         yn_score st so * 0.8
         + (real (count_hidden_passed tests st so) / real (length tests)) * 0.2)"
proof (cases sld)
  case (Inl e)
  then show ?thesis by (simp add: autograder_with_def autograder_try_def)
next
  case sld: (Inr swb)
  show ?thesis
  proof (cases tld)
    case (Inl e)
    with sld show ?thesis by (simp add: autograder_with_def autograder_try_def)
  next
    case tld: (Inr twb)
    show ?thesis
    proof (cases "STUDENT_SHEET_NAME \<in> set (sheetnames swb)
                  \<and> SOLUTION_SHEET_NAME \<in> set (sheetnames twb)")
      case False
      with sld tld show ?thesis by (auto simp: autograder_with_def autograder_try_def)
    next
      case True
      then obtain st so where g: "wb_getitem swb STUDENT_SHEET_NAME = Inr st"
          "wb_getitem twb SOLUTION_SHEET_NAME = Inr so"
        using wb_getitem_Inr by blast
      show ?thesis
      proof (cases "tests = []")
        case True
        with sld tld g show ?thesis by (simp add: autograder_with_def try_empty_tests)
      next
        case False
        with sld tld g show ?thesis
          by (auto simp: autograder_with_def autograder_try_graded)
      qed
    qed
  qed
qed

text \<open>The two grading functions side by side.\<close>

lemma grader_score_eq:
  "score (grader_with tests sld tld) = score (autograder_with tests sld tld)"
  by (simp add: grader_with_def autograder_with_def grader_try_def autograder_try_def Let_def
      split: sum.splits prod.splits)













section \<open>The weighted score\<close>



section \<open>The indicator row\<close>




section \<open>Failures\<close>



text \<open>
  Claim C4. When the student's workbook has no sheet \<open>blank\<close>, or the solution's workbook
  has no sheet \<open>solution\<close>, the result has score 0 and a feedback that says which sheet was
  not found. The result is the same whatever the cells of the two workbooks hold, and the
  local grading function returns no counters with it.
\<close>

theorem missing_sheet_short_circuits:
  "(STUDENT_SHEET_NAME \<notin> set (sheetnames student_wb) \<longrightarrow>
      autograder_grade_excel_worksheet (Inr student_wb) (Inr solution_wb)
        = \<lparr>score = 0, feedback = ''Error: Worksheet 'blank' not found in your submission.''\<rparr>
      \<and> grader_grade_excel_worksheet (Inr student_wb) (Inr solution_wb)
        = \<lparr>score = 0, feedback = ''Error: Worksheet 'blank' not found in your submission.'',
           extra = None\<rparr>)
   \<and> (STUDENT_SHEET_NAME \<in> set (sheetnames student_wb)
       \<and> SOLUTION_SHEET_NAME \<notin> set (sheetnames solution_wb) \<longrightarrow>
      autograder_grade_excel_worksheet (Inr student_wb) (Inr solution_wb)
        = \<lparr>score = 0, feedback = ''Error: Internal error - Solution worksheet not found.''\<rparr>
      \<and> grader_grade_excel_worksheet (Inr student_wb) (Inr solution_wb)
        = \<lparr>score = 0, feedback = ''Error: Solution worksheet not found.'', extra = None\<rparr>)"
  by (simp add: autograder_grade_excel_worksheet_def grader_grade_excel_worksheet_def
      autograder_with_def grader_with_def autograder_try_def grader_try_def
      student_sheet_missing_def STUDENT_SHEET_NAME_def)

theorem missing_sheet_short_circuits_witness:
  "STUDENT_SHEET_NAME \<notin> set (sheetnames [(''Sheet1'', student_a)])
   \<and> autograder_grade_excel_worksheet (Inr [(''Sheet1'', student_a)])
        (Inr [(''solution'', solution_a)])
       = \<lparr>score = 0, feedback = ''Error: Worksheet 'blank' not found in your submission.''\<rparr>
   \<and> STUDENT_SHEET_NAME \<in> set (sheetnames [(''blank'', student_a)])
   \<and> SOLUTION_SHEET_NAME \<notin> set (sheetnames [(''Sheet1'', solution_a)])
   \<and> autograder_grade_excel_worksheet (Inr [(''blank'', student_a)])
        (Inr [(''Sheet1'', solution_a)])
       = \<lparr>score = 0, feedback = ''Error: Internal error - Solution worksheet not found.''\<rparr>
   \<and> grader_grade_excel_worksheet (Inr [(''blank'', student_a)])
        (Inr [(''Sheet1'', solution_a)])
       = \<lparr>score = 0, feedback = ''Error: Solution worksheet not found.'', extra = None\<rparr>"
  using missing_sheet_short_circuits [of "[(''Sheet1'', student_a)]"
      "[(''solution'', solution_a)]"]
    missing_sheet_short_circuits [of "[(''blank'', student_a)]" "[(''Sheet1'', solution_a)]"]
  by (simp add: sheetnames_def STUDENT_SHEET_NAME_def SOLUTION_SHEET_NAME_def)

section \<open>The tolerant comparison: numbers, fallback, blanks\<close>



text \<open>
  Claim C6, as stated, fails: a boolean is numeric for \<open>isinstance\<close>, so the boolean True
  and the integer 1, two values of different types, are compared by the numeric rule and
  found equal.
\<close>

theorem equal_values_boolean_counterexample:
  "equal_values (PyBool True) (PyInt 1) \<and> PyBool True \<noteq> PyInt 1
   \<and> \<not> is_blank (PyBool True) \<and> \<not> is_blank (PyInt 1)"
  by (simp add: equal_values_def is_blank_def)

text \<open>
  Claim C6, amended. For two non-blank values that are not both text and that are either
  not both numeric (booleans counting as numeric) or both booleans, \<open>equal_values\<close> is true
  exactly when the two are the same value of the same type.
\<close>

theorem equal_values_fallback_exact:
  assumes "\<not> is_blank a" and "\<not> is_blank b"
    and "\<not> (is_numeric a \<and> is_numeric b) \<or> (is_bool a \<and> is_bool b)"
    and "\<not> (is_str a \<and> is_str b)"
  shows "equal_values a b = (a = b)"
  using assms by (cases a; cases b) (simp_all add: equal_values_def is_blank_def)

theorem equal_values_fallback_exact_witness:
  "\<not> is_blank (PyDate 7) \<and> \<not> is_blank (PyStr ''7'')
   \<and> \<not> is_numeric (PyDate 7) \<and> \<not> is_str (PyDate 7)
   \<and> \<not> equal_values (PyDate 7) (PyStr ''7'')
   \<and> \<not> is_blank (PyBool True) \<and> is_bool (PyBool True)
   \<and> equal_values (PyBool True) (PyBool True)"
  using equal_values_fallback_exact [of "PyDate 7" "PyStr ''7''"]
    equal_values_fallback_exact [of "PyBool True" "PyBool True"]
  by (simp add: is_blank_def)

section \<open>The range of the score\<close>

text \<open>
  Claim C7. Whatever loading the two workbooks does, the score of the result of either
  grading function lies between 0 and 1.
\<close>

theorem score_in_unit_interval:
  "0 \<le> score (autograder_grade_excel_worksheet sld tld)
   \<and> score (autograder_grade_excel_worksheet sld tld) \<le> 1
   \<and> 0 \<le> score (grader_grade_excel_worksheet sld tld)
   \<and> score (grader_grade_excel_worksheet sld tld) \<le> 1"
proof -
  have "0 \<le> score (autograder_with HIDDEN_TEST_CELLS sld tld)
        \<and> score (autograder_with HIDDEN_TEST_CELLS sld tld) \<le> 1"
    using autograder_score_cases [of HIDDEN_TEST_CELLS sld tld] graded_score_range
    by (metis zero_le_one order_refl)
  then show ?thesis
    by (simp add: autograder_grade_excel_worksheet_def grader_grade_excel_worksheet_def
        grader_score_eq)
qed

theorem score_in_unit_interval_witness:
  "0 \<le> score (autograder_grade_excel_worksheet (Inr [(''blank'', student_c)])
            (Inr [(''solution'', solution_c)]))
   \<and> score (autograder_grade_excel_worksheet (Inr [(''blank'', student_c)])
            (Inr [(''solution'', solution_c)])) \<le> 1
   \<and> score (grader_grade_excel_worksheet (Inl ''File is not a zip file'') (Inr [])) = 0"
  using score_in_unit_interval [of "Inr [(''blank'', student_c)]"
      "Inr [(''solution'', solution_c)]"]
    score_in_unit_interval [of "Inl ''File is not a zip file''" "Inr []"]
  by (simp add: grader_grade_excel_worksheet_def grader_with_def grader_try_def)

section \<open>The denominator of the hidden tests\<close>




section \<open>The two entry points\<close>




section \<open>Blanks\<close>

text \<open>
  Claim C10. The tolerant comparison is not transitive on blanks: a text of one space
  equals the empty text, the empty text equals None, and the text of one space does not
  equal None.
\<close>

theorem equal_values_blank_not_transitive:
  "equal_values (PyStr '' '') (PyStr []) \<and> equal_values (PyStr []) PyNone
   \<and> \<not> equal_values (PyStr '' '') PyNone"
  by (simp add: equal_values_def is_blank_def strip_def lower_def is_space_def)

end
